theory Spec2Isabelle
  imports Main
begin

section \<open>JavaScript values\<close>

text \<open>
  The values that \<open>JSON.parse\<close> returns and that the code passes around untyped
  (\<open>any\<close>). A JavaScript \<open>undefined\<close> (an absent property, an omitted argument) is
  \<open>None\<close> of an option type. A number is named by an integer: the code only tests a
  number for being zero, and how a number prints is left to the platform.
\<close>

datatype json =
  JNull
  | JBool bool
  | JNum int
  | JString string
  | JArray "json list"
  | JObject "(string \<times> json) list"

text \<open>What \<open>!!v\<close> is: \<open>null\<close>, \<open>false\<close>, \<open>0\<close> and \<open>''\<close> are falsy.\<close>

fun truthy :: "json \<Rightarrow> bool" where
  "truthy JNull = False"
| "truthy (JBool b) = b"
| "truthy (JNum n) = (n \<noteq> 0)"
| "truthy (JString s) = (s \<noteq> [])"
| "truthy (JArray xs) = True"
| "truthy (JObject kvs) = True"

definition truthy_opt :: "json option \<Rightarrow> bool" where
  "truthy_opt v = (case v of None \<Rightarrow> False | Some j \<Rightarrow> truthy j)"

fun typeof :: "json \<Rightarrow> string" where
  "typeof JNull = ''object''"
| "typeof (JBool b) = ''boolean''"
| "typeof (JNum n) = ''number''"
| "typeof (JString s) = ''string''"
| "typeof (JArray xs) = ''object''"
| "typeof (JObject kvs) = ''object''"

text \<open>
  \<open>v.p\<close> on a value that is not \<open>null\<close>: an own property of an object, \<open>undefined\<close>
  otherwise (no property the code reads exists on a string, number, boolean or array).
\<close>

fun lookup :: "json \<Rightarrow> string \<Rightarrow> json option" where
  "lookup (JObject kvs) p = map_of kvs p"
| "lookup v p = None"

text \<open>\<open>a || b\<close>, with \<open>a\<close> possibly undefined.\<close>

definition or_else :: "json option \<Rightarrow> json \<Rightarrow> json" where
  "or_else a b = (case a of None \<Rightarrow> b | Some v \<Rightarrow> if truthy v then v else b)"

text \<open>
  Decimal digits, as a template literal prints an HTTP status (an unsigned short) and as
  \<open>String(n)\<close> prints a small integer.
\<close>

fun decimal :: "nat \<Rightarrow> string" where
  "decimal n =
     (if n < 10 then [char_of (48 + n)]
      else decimal (n div 10) @ [char_of (48 + n mod 10)])"

declare decimal.simps [simp del]

definition String_int :: "int \<Rightarrow> string" where
  "String_int i = (if i < 0 then ''-'' @ decimal (nat (- i)) else decimal (nat i))"

fun join_comma :: "string list \<Rightarrow> string" where
  "join_comma [] = []"
| "join_comma [s] = s"
| "join_comma (s # t # ss) = s @ '','' @ join_comma (t # ss)"

text \<open>
  The conversion of a value to a string, as \<open>new Error(v)\<close> does it for its message,
  given how the platform prints a number; \<open>None\<close> where the conversion throws a
  \<open>TypeError\<close>. An array joins the conversions of its elements, \<open>null\<close> giving the
  empty string. An object parsed from JSON prints as \<open>[object Object]\<close> by the
  \<open>toString\<close> it inherits; when it has a \<open>toString\<close> key of its own, that value is
  not a function, no \<open>valueOf\<close> gives a primitive either, and the conversion throws.
\<close>

fun ToString :: "(int \<Rightarrow> string) \<Rightarrow> json \<Rightarrow> string option" where
  "ToString num JNull = Some ''null''"
| "ToString num (JBool b) = Some (if b then ''true'' else ''false'')"
| "ToString num (JNum n) = Some (num n)"
| "ToString num (JString s) = Some s"
| "ToString num (JArray xs) =
     map_option join_comma
       (those (map (\<lambda>x. if x = JNull then Some [] else ToString num x) xs))"
| "ToString num (JObject kvs) =
     (if map_of kvs ''toString'' = None then Some ''[object Object]'' else None)"

section \<open>Errors\<close>

text \<open>
  An \<open>Error\<close> of the platform, and \<open>interface ApiError extends Error\<close> of the types
  module. \<open>errorString\<close> is declared a string, but \<open>createApiError\<close> stores what it is
  given, which can be any value of a response body. An optional field that is
  \<open>undefined\<close> is \<open>None\<close>; \<open>isApiError\<close> undefined is \<open>False\<close>.
\<close>

record Error =
  message :: string
  stack :: "string option"

record ApiError = Error +
  error :: bool
  errorString :: json
  details :: "json option"
  status :: "nat option"
  isApiError :: bool
  apiResponse :: "json option"

text \<open>
  What a \<open>throw\<close> or a rejected promise carries: an error of the platform, which has
  none of the fields of an \<open>ApiError\<close>, or an \<open>ApiError\<close>.
\<close>

datatype thrown =
  Plain Error
  | Api ApiError

text \<open>\<open>error.isApiError\<close>, \<open>error.message\<close> and \<open>error.stack\<close> of a caught value.\<close>

fun thrown_isApiError :: "thrown \<Rightarrow> bool" where
  "thrown_isApiError (Plain e) = False"
| "thrown_isApiError (Api a) = isApiError a"

fun thrown_message :: "thrown \<Rightarrow> string" where
  "thrown_message (Plain e) = message e"
| "thrown_message (Api a) = message a"

fun thrown_stack :: "thrown \<Rightarrow> string option" where
  "thrown_stack (Plain e) = stack e"
| "thrown_stack (Api a) = stack a"

text \<open>What the platform throws or rejects with, as a thrown value.\<close>

definition platform :: "Error + 'a \<Rightarrow> thrown + 'a" where
  "platform r = (case r of Inl e \<Rightarrow> Inl (Plain e) | Inr v \<Rightarrow> Inr v)"

section \<open>The browser\<close>

text \<open>What the engine throws a \<open>TypeError\<close> for, in the code modelled here.\<close>

datatype TypeErrorCause =
  PropertyOfNull string
  | NoPrimitiveValue

datatype StorageCall =
  GetItem string
  | SetItem string string
  | RemoveItem string

text \<open>
  \<open>localStorage\<close>: its entries, and which calls throw (access denied, quota exceeded)
  and what they throw. A call that throws changes nothing.
\<close>

record Storage =
  items :: "string \<rightharpoonup> string"
  raises :: "StorageCall \<Rightarrow> Error option"

record RequestInit =
  http_method :: "string option"
  headers :: "string \<rightharpoonup> string"
  body :: "string option"

text \<open>
  A \<open>Response\<close> of \<open>fetch\<close>: \<open>status\<close>, \<open>statusText\<close>, and what \<open>text()\<close> resolves
  or rejects with.
\<close>

record Response =
  res_status :: nat
  statusText :: string
  res_text :: "Error + string"

text \<open>\<open>response.ok\<close>: the status is in the range 200 to 299.\<close>

definition ok :: "Response \<Rightarrow> bool" where
  "ok response = (200 \<le> res_status response \<and> res_status response \<le> 299)"

datatype level = LOG | WARN | ERROR

text \<open>
  The user of a session, \<open>interface User\<close> of the types module.
\<close>

record User =
  id' :: int
  patronId :: int
  first_name :: string
  last_name :: string
  email :: string
  mobile_number :: "string option"

text \<open>The object a \<open>User\<close> is at run time: its properties, an undefined one left out.\<close>

definition User_json :: "User \<Rightarrow> json" where
  "User_json u = JObject
     ([(''id'', JNum (id' u)),
       (''patronId'', JNum (patronId u)),
       (''first_name'', JString (first_name u)),
       (''last_name'', JString (last_name u)),
       (''email'', JString (email u))]
      @ (case mobile_number u of None \<Rightarrow> [] | Some m \<Rightarrow> [(''mobile_number'', JString m)]))"

text \<open>
  Everything the code reads and writes outside its own variables: the storage, the
  console (each call with its first argument), the platform's \<open>JSON.parse\<close> (which throws
  or returns a value), \<open>JSON.stringify\<close> and \<open>encodeURIComponent\<close>, how the platform
  prints a number, the \<open>TypeError\<close> that the engine throws (its message and stack are
  the engine's own), the network (what \<open>fetch\<close> answers to a request, and the requests
  issued so far), the build's environment variables, the paths \<open>navigate\<close> was called
  with, and the three state variables of \<open>AuthProvider\<close>.
\<close>

record World =
  localStorage :: Storage
  console :: "(level \<times> string) list"
  JSON_parse :: "string \<Rightarrow> Error + json"
  JSON_stringify :: "json \<Rightarrow> string"
  encodeURIComponent :: "string \<Rightarrow> string"
  Number_toString :: "int \<Rightarrow> string"
  TypeError :: "TypeErrorCause \<Rightarrow> Error"
  fetch :: "string \<Rightarrow> RequestInit \<Rightarrow> Error + Response"
  requests :: "(string \<times> RequestInit) list"
  VITE_API_HOST :: string
  VITE_API_PORT :: string
  navigations :: "string list"
  token :: "string option"
  user :: "json option"
  isLoading :: bool

section \<open>Statements\<close>

text \<open>
  A statement runs in a world and either throws or returns a value; the world it leaves
  is kept in both cases.
\<close>

type_synonym 'a io = "World \<Rightarrow> (thrown + 'a) \<times> World"

definition ret :: "'a \<Rightarrow> 'a io" where
  "ret v w = (Inr v, w)"

definition throw :: "thrown \<Rightarrow> 'a io" where
  "throw e w = (Inl e, w)"

definition and_then :: "'a io \<Rightarrow> ('a \<Rightarrow> 'b io) \<Rightarrow> 'b io" where
  "and_then m f w = (case m w of (Inl e, w') \<Rightarrow> (Inl e, w') | (Inr v, w') \<Rightarrow> f v w')"

text \<open>A sequence of statements.\<close>

fun block :: "unit io list \<Rightarrow> unit io" where
  "block [] = ret ()"
| "block (m # ms) = and_then m (\<lambda>_. block ms)"

definition try_catch :: "'a io \<Rightarrow> (thrown \<Rightarrow> 'a io) \<Rightarrow> 'a io" where
  "try_catch m h w = (case m w of (Inl e, w') \<Rightarrow> h e w' | (Inr v, w') \<Rightarrow> (Inr v, w'))"

definition try_finally :: "'a io \<Rightarrow> unit io \<Rightarrow> 'a io" where
  "try_finally m f w =
     (case m w of (r, w') \<Rightarrow>
        (case f w' of (Inl e, w'') \<Rightarrow> (Inl e, w'') | (Inr _, w'') \<Rightarrow> (r, w'')))"

definition console_log :: "string \<Rightarrow> unit io" where
  "console_log msg w = (Inr (), w\<lparr>console := console w @ [(LOG, msg)]\<rparr>)"

definition console_warn :: "string \<Rightarrow> unit io" where
  "console_warn msg w = (Inr (), w\<lparr>console := console w @ [(WARN, msg)]\<rparr>)"

definition console_error :: "string \<Rightarrow> unit io" where
  "console_error msg w = (Inr (), w\<lparr>console := console w @ [(ERROR, msg)]\<rparr>)"

definition localStorage_setItem :: "string \<Rightarrow> string \<Rightarrow> unit io" where
  "localStorage_setItem k v w =
     (case raises (localStorage w) (SetItem k v) of
        Some e \<Rightarrow> (Inl (Plain e), w)
      | None \<Rightarrow>
          (Inr (), w\<lparr>localStorage := (localStorage w)\<lparr>items := (items (localStorage w))(k \<mapsto> v)\<rparr>\<rparr>))"

definition localStorage_getItem :: "string \<Rightarrow> string option io" where
  "localStorage_getItem k w =
     (case raises (localStorage w) (GetItem k) of
        Some e \<Rightarrow> (Inl (Plain e), w)
      | None \<Rightarrow> (Inr (items (localStorage w) k), w))"

definition localStorage_removeItem :: "string \<Rightarrow> unit io" where
  "localStorage_removeItem k w =
     (case raises (localStorage w) (RemoveItem k) of
        Some e \<Rightarrow> (Inl (Plain e), w)
      | None \<Rightarrow>
          (Inr (), w\<lparr>localStorage := (localStorage w)\<lparr>items := (items (localStorage w))(k := None)\<rparr>\<rparr>))"

definition parse_json :: "string \<Rightarrow> json io" where
  "parse_json s w = (platform (JSON_parse w s), w)"

definition stringify_json :: "json \<Rightarrow> string io" where
  "stringify_json v w = (Inr (JSON_stringify w v), w)"

section \<open>The session store (utils/auth.ts)\<close>

definition TOKEN_KEY :: string where
  "TOKEN_KEY = ''authToken''"

definition USER_KEY :: string where
  "USER_KEY = ''authUser''"

definition setAuthToken :: "string \<Rightarrow> unit io" where
  "setAuthToken tok =
     try_catch
       (block [localStorage_setItem TOKEN_KEY tok,
               console_log ''Auth Token stored in localStorage.''])
       (\<lambda>err. console_error ''Error storing auth token in localStorage:'')"

definition getAuthToken :: "string option io" where
  "getAuthToken =
     try_catch
       (localStorage_getItem TOKEN_KEY)
       (\<lambda>err. and_then (console_error ''Error retrieving auth token from localStorage:'')
                 (\<lambda>_. ret None))"

definition removeAuthToken :: "unit io" where
  "removeAuthToken =
     try_catch
       (block [localStorage_removeItem TOKEN_KEY,
               console_log ''Auth Token removed from localStorage.''])
       (\<lambda>err. console_error ''Error removing auth token from localStorage:'')"

definition setUserInStorage :: "User \<Rightarrow> unit io" where
  "setUserInStorage u =
     try_catch
       (and_then (stringify_json (User_json u)) (\<lambda>s.
          block [localStorage_setItem USER_KEY s,
                 console_log ''User object stored in localStorage.'']))
       (\<lambda>err. console_error ''Error storing user object in localStorage:'')"

definition removeUserFromStorage :: "unit io" where
  "removeUserFromStorage =
     try_catch
       (block [localStorage_removeItem USER_KEY,
               console_log ''User object removed from localStorage.''])
       (\<lambda>err. console_error ''Error removing user object from localStorage:'')"

text \<open>
  The check of \<open>getUserFromStorage\<close> on what it parsed:
  \<open>user && typeof user === 'object' && user.email\<close>.
\<close>

definition basic_check :: "json \<Rightarrow> bool" where
  "basic_check u = (truthy u \<and> typeof u = ''object'' \<and> truthy_opt (lookup u ''email''))"

definition getUserFromStorage :: "json option io" where
  "getUserFromStorage =
     try_catch
       (and_then (localStorage_getItem USER_KEY) (\<lambda>storedUser.
          case storedUser of
            None \<Rightarrow> ret None
          | Some s \<Rightarrow>
              if s = [] then ret None
              else and_then (parse_json s) (\<lambda>u.
                if basic_check u
                then and_then (console_log ''User object retrieved from localStorage:'')
                       (\<lambda>_. ret (Some u))
                else and_then (console_warn ''Invalid user object found in localStorage. Removing.'')
                       (\<lambda>_. and_then removeUserFromStorage (\<lambda>_. ret None)))))
       (\<lambda>err. and_then (console_error ''Error retrieving or parsing user object from localStorage:'')
                 (\<lambda>_. and_then removeUserFromStorage (\<lambda>_. ret None)))"

section \<open>The authentication context (AuthProvider)\<close>

text \<open>
  The state variables as \<open>useState\<close> initialises them when the provider mounts: after a
  page reload the storage is what it was and the state is new.
\<close>

definition mount :: "World \<Rightarrow> World" where
  "mount w = w\<lparr>token := None, user := None, isLoading := True\<rparr>"

definition setTokenState :: "string option \<Rightarrow> unit io" where
  "setTokenState v w = (Inr (), w\<lparr>token := v\<rparr>)"

definition setUserState :: "json option \<Rightarrow> unit io" where
  "setUserState v w = (Inr (), w\<lparr>user := v\<rparr>)"

definition setIsLoading :: "bool \<Rightarrow> unit io" where
  "setIsLoading v w = (Inr (), w\<lparr>isLoading := v\<rparr>)"

definition navigate :: "string \<Rightarrow> unit io" where
  "navigate path w = (Inr (), w\<lparr>navigations := navigations w @ [path]\<rparr>)"

text \<open>\<open>!!s\<close> of a \<open>string | null\<close>, and \<open>v.p\<close> of a value that may be \<open>null\<close> where the
  code has tested it before.\<close>

definition truthy_str :: "string option \<Rightarrow> bool" where
  "truthy_str v = (case v of None \<Rightarrow> False | Some s \<Rightarrow> s \<noteq> [])"

definition lookup_opt :: "json option \<Rightarrow> string \<Rightarrow> json option" where
  "lookup_opt v p = (case v of None \<Rightarrow> None | Some j \<Rightarrow> lookup j p)"

text \<open>The effect that runs once on mount.\<close>

definition initialize :: "unit io" where
  "initialize =
     block
       [console_log ''AuthProvider: Initializing auth state...'',
        setIsLoading True,
        try_finally
          (try_catch
             (and_then getAuthToken (\<lambda>storedToken.
              and_then getUserFromStorage (\<lambda>storedUser.
                if truthy_str storedToken \<and> truthy_opt storedUser
                then and_then (console_log ''AuthProvider: Found token and user in storage.'') (\<lambda>_.
                  if truthy_opt (lookup_opt storedUser ''id'')
                     \<and> truthy_opt (lookup_opt storedUser ''email'')
                     \<and> truthy_opt (lookup_opt storedUser ''patronId'')
                  then block
                    [setTokenState storedToken,
                     setUserState storedUser,
                     console_log ''AuthProvider: State updated from storage.'']
                  else block
                    [console_warn ''AuthProvider: Stored user data is invalid. Clearing auth state.'',
                     removeAuthToken,
                     removeUserFromStorage,
                     setTokenState None,
                     setUserState None])
                else block
                  [console_log ''AuthProvider: No valid token/user found in storage.'',
                   setTokenState None,
                   setUserState None])))
             (\<lambda>err. block
                [console_error ''AuthProvider: Error during initialization:'',
                 removeAuthToken,
                 removeUserFromStorage,
                 setTokenState None,
                 setUserState None]))
          (block
             [setIsLoading False,
              console_log ''AuthProvider: Initialization complete.''])]"

definition login :: "string \<Rightarrow> User \<Rightarrow> unit io" where
  "login newToken loggedInUser =
     and_then (console_log ''AuthContext: login called with user:'') (\<lambda>_.
       try_catch
         (block
            [setAuthToken newToken,
             setUserInStorage loggedInUser,
             setTokenState (Some newToken),
             setUserState (Some (User_json loggedInUser)),
             console_log ''AuthContext: State updated after login. Navigating to /favorites...'',
             navigate ''/favorites''])
         (\<lambda>err. console_error ''AuthContext: Error during login state update:''))"

definition logout :: "unit io" where
  "logout =
     and_then (console_log ''AuthContext: logout called.'') (\<lambda>_.
       try_catch
         (block
            [removeAuthToken,
             removeUserFromStorage,
             setTokenState None,
             setUserState None,
             console_log ''AuthContext: State cleared. Navigating to /login...'',
             navigate ''/login''])
         (\<lambda>err. console_error ''AuthContext: Error during logout state update:''))"

text \<open>\<open>const isAuthenticated = !!token && !!user\<close>.\<close>

definition isAuthenticated :: "World \<Rightarrow> bool" where
  "isAuthenticated w = (truthy_str (token w) \<and> truthy_opt (user w))"

section \<open>The request client (utils/api.ts)\<close>

text \<open>
  \<open>new Error(message)\<close> converts its argument to a string and throws a \<open>TypeError\<close>
  where that conversion does. The stack that it records is the engine's own text and is
  left undefined: nothing reads the stack of an error made here.
\<close>

definition new_Error :: "json \<Rightarrow> Error io" where
  "new_Error msg w =
     (case ToString (Number_toString w) msg of
        None \<Rightarrow> (Inl (Plain (TypeError w NoPrimitiveValue)), w)
      | Some m \<Rightarrow> (Inr \<lparr> message = m, stack = None \<rparr>, w))"

definition createApiError ::
  "json \<Rightarrow> nat option \<Rightarrow> json option \<Rightarrow> json option \<Rightarrow> ApiError io" where
  "createApiError msg st det responseData =
     and_then (new_Error msg) (\<lambda>e.
       ret \<lparr> message = message e, stack = stack e,
             error = True,
             errorString = msg,
             details = det,
             status = st,
             isApiError = True,
             apiResponse = responseData \<rparr>)"

definition API_BASE_URL :: "World \<Rightarrow> string" where
  "API_BASE_URL w =
     (if VITE_API_HOST w \<noteq> [] then VITE_API_HOST w else ''http://localhost'')
     @ '':'' @ (if VITE_API_PORT w \<noteq> [] then VITE_API_PORT w else ''3000'') @ ''/api''"

definition defaultHeaders :: "string \<rightharpoonup> string" where
  "defaultHeaders = [''Content-Type'' \<mapsto> ''application/json'', ''Accept'' \<mapsto> ''application/json'']"

text \<open>\<open>fetch(url, config)\<close>: the request is issued, and the network answers.\<close>

definition fetch_call :: "string \<Rightarrow> RequestInit \<Rightarrow> Response io" where
  "fetch_call url config w =
     (platform (fetch w url config), w\<lparr>requests := requests w @ [(url, config)]\<rparr>)"

definition response_text :: "Response \<Rightarrow> string io" where
  "response_text response w = (platform (res_text response), w)"

text \<open>
  \<open>v.p\<close> where \<open>v\<close> may be \<open>null\<close>: reading a property of \<open>null\<close> throws a
  \<open>TypeError\<close>.
\<close>

definition member :: "json \<Rightarrow> string \<Rightarrow> json option io" where
  "member v p w =
     (if v = JNull
      then (Inl (Plain (TypeError w (PropertyOfNull p))), w)
      else (Inr (lookup v p), w))"

text \<open>
  Where the inner \<open>try\<close> of \<open>handleRequest\<close> leaves the function: its \<open>catch\<close> returns
  the text of the response from the function, its body goes on with the parsed data.
\<close>

datatype parsed =
  Returned json
  | Parsed json

definition handleRequest :: "string \<Rightarrow> RequestInit \<Rightarrow> json io" where
  "handleRequest url options =
     (let config = options\<lparr>headers := defaultHeaders ++ headers options\<rparr> in
      and_then (console_log ''API Request:'') (\<lambda>_.
      try_catch
        (and_then (fetch_call url config) (\<lambda>response.
         and_then (console_log ''API Response Status:'') (\<lambda>_.
         if res_status response = 204
         then and_then (console_log ''API Response: 204 No Content'') (\<lambda>_. ret (JObject []))
         else
           and_then (response_text response) (\<lambda>responseText.
           and_then
             (try_catch
                (and_then (parse_json responseText) (\<lambda>responseData.
                 and_then (console_log ''API Response Data:'') (\<lambda>_.
                 ret (Parsed responseData))))
                (\<lambda>jsonError.
                 and_then (console_warn ''Failed to parse API response as JSON. Text:'') (\<lambda>_.
                 if \<not> ok response
                 then and_then (createApiError
                        (JString (''Request failed: '' @ decimal (res_status response) @ '' ''
                           @ (if statusText response \<noteq> [] then statusText response
                              else responseText)))
                        (Some (res_status response)) None None) (\<lambda>apiError. throw (Api apiError))
                 else ret (Returned (JString responseText)))))
             (\<lambda>r. case r of
                Returned v \<Rightarrow> ret v
              | Parsed responseData \<Rightarrow>
                  and_then (member responseData ''error'') (\<lambda>flag.
                  if flag = Some (JBool True)
                  then and_then (console_error ''API Error Data:'') (\<lambda>_.
                    and_then (createApiError
                      (or_else (lookup responseData ''errorString'')
                         (JString (''API Error: '' @ decimal (res_status response))))
                      (Some (res_status response))
                      (lookup responseData ''details'')
                      (Some responseData)) (\<lambda>apiError. throw (Api apiError)))
                  else if \<not> ok response
                  then and_then (console_error ''API Error (Not OK, no error flag):'') (\<lambda>_.
                    and_then (createApiError
                      (or_else (lookup responseData ''message'')
                         (or_else (lookup responseData ''errorString'')
                            (JString (''Request failed: '' @ decimal (res_status response)))))
                      (Some (res_status response))
                      (lookup responseData ''details'')
                      (Some responseData)) (\<lambda>apiError. throw (Api apiError)))
                  else ret responseData))))))
        (\<lambda>err.
           and_then (console_error ''API Fetch/Processing Error:'') (\<lambda>_.
           if thrown_isApiError err
           then throw err
           else and_then (createApiError
                  (JString (if thrown_message err \<noteq> [] then thrown_message err
                            else ''An unexpected network or processing error occurred.''))
                  None
                  (map_option JString (thrown_stack err))
                  None) (\<lambda>apiError. throw (Api apiError))))))"

definition getAuthHeaders :: "string \<Rightarrow> (string \<rightharpoonup> string) io" where
  "getAuthHeaders tok =
     (if tok = []
      then and_then (console_warn ''Attempted to get Auth Headers without a token.'')
             (\<lambda>_. ret Map.empty)
      else ret [''Authorization'' \<mapsto> ''Bearer '' @ tok])"

definition getFavoriteSongs :: "string \<Rightarrow> json io" where
  "getFavoriteSongs tok =
     (if tok = []
      then and_then (createApiError (JString ''Authentication token is required.'')
                    (Some 401) None None) (\<lambda>apiError. throw (Api apiError))
      else and_then (getAuthHeaders tok) (\<lambda>h w.
             handleRequest (API_BASE_URL w @ ''/patron/favorites'')
               \<lparr> http_method = None, headers = h, body = None \<rparr> w))"

definition addSongToFavorites :: "string \<Rightarrow> int \<Rightarrow> json io" where
  "addSongToFavorites tok songId =
     (if tok = []
      then and_then (createApiError (JString ''Authentication token is required.'')
                    (Some 401) None None) (\<lambda>apiError. throw (Api apiError))
      else and_then (getAuthHeaders tok) (\<lambda>h.
           and_then (stringify_json (JObject [(''song_id'', JNum songId)])) (\<lambda>b w.
             handleRequest (API_BASE_URL w @ ''/patron/favorites'')
               \<lparr> http_method = Some ''POST'', headers = h, body = Some b \<rparr> w)))"

text \<open>\<open>String(songId)\<close> of a \<open>songId: number | string\<close>.\<close>

definition String_songId :: "World \<Rightarrow> int + string \<Rightarrow> string" where
  "String_songId w songId = (case songId of Inl n \<Rightarrow> Number_toString w n | Inr s \<Rightarrow> s)"

definition removeSongFromFavorites :: "string \<Rightarrow> int + string \<Rightarrow> json io" where
  "removeSongFromFavorites tok songId =
     (if tok = []
      then and_then (createApiError (JString ''Authentication token is required.'')
                    (Some 401) None None) (\<lambda>apiError. throw (Api apiError))
      else and_then (getAuthHeaders tok) (\<lambda>h w.
             handleRequest
               (API_BASE_URL w @ ''/patron/favorites/''
                  @ encodeURIComponent w (String_songId w songId))
               \<lparr> http_method = Some ''DELETE'', headers = h, body = None \<rparr> w))"

section \<open>Example browsers\<close>

text \<open>
  Concrete worlds for the examples that follow the theorems. The storage of an example
  browser holds the listed entries; \<open>JSON.parse\<close> and \<open>JSON.stringify\<close> are given by a
  table of the texts the example uses, each with the value it denotes, and a text
  outside the table is not JSON; a number prints in decimal digits; the network gives
  one answer to every request.
\<close>

definition no_failure :: "StorageCall \<Rightarrow> Error option" where
  "no_failure c = None"

definition access_denied :: "StorageCall \<Rightarrow> Error option" where
  "access_denied c = Some \<lparr> message = ''The operation is insecure.'', stack = None \<rparr>"

definition parse_table :: "(string \<times> json) list \<Rightarrow> string \<Rightarrow> Error + json" where
  "parse_table t s =
     (case map_of t s of
        None \<Rightarrow> Inl \<lparr> message = ''Unexpected token'', stack = None \<rparr>
      | Some v \<Rightarrow> Inr v)"

definition stringify_table :: "(string \<times> json) list \<Rightarrow> json \<Rightarrow> string" where
  "stringify_table t v = (case find (\<lambda>kv. snd kv = v) t of None \<Rightarrow> [] | Some kv \<Rightarrow> fst kv)"

text \<open>The messages of the \<open>TypeError\<close>s of one engine, V8.\<close>

definition example_TypeError :: "TypeErrorCause \<Rightarrow> Error" where
  "example_TypeError c =
     (case c of
        PropertyOfNull p \<Rightarrow>
          \<lparr> message = ''Cannot read properties of null (reading '' @ p @ '')'',
            stack = Some ''TypeError: Cannot read properties of null'' \<rparr>
      | NoPrimitiveValue \<Rightarrow>
          \<lparr> message = ''Cannot convert object to primitive value'',
            stack = Some ''TypeError: Cannot convert object to primitive value'' \<rparr>)"

definition example_browser ::
  "(string \<times> string) list \<Rightarrow> (StorageCall \<Rightarrow> Error option) \<Rightarrow> (string \<times> json) list
     \<Rightarrow> Error + Response \<Rightarrow> World" where
  "example_browser entries failing table answer =
     \<lparr> localStorage = \<lparr> items = map_of entries, raises = failing \<rparr>,
       console = [],
       JSON_parse = parse_table table,
       JSON_stringify = stringify_table table,
       encodeURIComponent = (\<lambda>s. s),
       Number_toString = String_int,
       TypeError = example_TypeError,
       fetch = (\<lambda>url config. answer),
       requests = [],
       VITE_API_HOST = [],
       VITE_API_PORT = [],
       navigations = [],
       token = None,
       user = None,
       isLoading = True \<rparr>"

definition offline :: "Error + Response" where
  "offline = Inl \<lparr> message = ''Failed to fetch'', stack = None \<rparr>"

text \<open>The network answering with a status, a status text and a body.\<close>

definition respond :: "nat \<Rightarrow> string \<Rightarrow> string \<Rightarrow> Error + Response" where
  "respond st stx txt = Inr \<lparr> res_status = st, statusText = stx, res_text = Inr txt \<rparr>"

text \<open>The options of a call \<open>handleRequest(url)\<close>: none.\<close>

definition no_options :: RequestInit where
  "no_options = \<lparr> http_method = None, headers = Map.empty, body = None \<rparr>"

definition example_user :: User where
  "example_user =
     \<lparr> id' = 7, patronId = 7, first_name = ''Ada'', last_name = ''Lovelace'',
       email = ''a@b.com'', mobile_number = None \<rparr>"

definition example_user_text :: string where
  "example_user_text =
     ''{\"id\":7,\"patronId\":7,\"first_name\":\"Ada\",\"last_name\":\"Lovelace\",\"email\":\"a@b.com\"}''"

definition email_only_text :: string where
  "email_only_text = ''{\"email\":\"a@b.com\"}''"

definition no_email_text :: string where
  "no_email_text = ''{\"id\":7}''"

definition named_email_text :: string where
  "named_email_text = ''{\"first_name\":\"Ada\",\"email\":\"a@b.com\"}''"

definition unlinked_user :: User where
  "unlinked_user =
     \<lparr> id' = 7, patronId = 0, first_name = ''Ada'', last_name = ''Lovelace'',
       email = ''a@b.com'', mobile_number = None \<rparr>"

definition unlinked_user_text :: string where
  "unlinked_user_text =
     ''{\"id\":7,\"patronId\":0,\"first_name\":\"Ada\",\"last_name\":\"Lovelace\",\"email\":\"a@b.com\"}''"

definition error_body_text :: string where
  "error_body_text = ''{\"error\":true,\"errorString\":\"Email already registered\"}''"

definition flag_only_text :: string where
  "flag_only_text = ''{\"error\":true}''"

definition empty_error_text :: string where
  "empty_error_text = ''{\"error\":true,\"errorString\":\"\"}''"

definition object_error_text :: string where
  "object_error_text =
     ''{\"error\":true,\"errorString\":{\"toString\":1},\"details\":\"d\"}''"

definition error_body :: json where
  "error_body = JObject [(''error'', JBool True), (''errorString'', JString ''Email already registered'')]"

text \<open>An empty storage that works, and the text of the example user.\<close>

definition fresh_browser :: World where
  "fresh_browser =
     example_browser [] no_failure [(example_user_text, User_json example_user)] offline"

text \<open>A browser that refuses every access to its storage.\<close>

definition denied_browser :: World where
  "denied_browser =
     example_browser [(''authToken'', ''abc''), (''authUser'', example_user_text)] access_denied
       [(example_user_text, User_json example_user)] offline"

section \<open>Statements that return\<close>

text \<open>
  The value and the world that a statement leaves, for the statements that are shown
  below never to throw.
\<close>

definition returned :: "'a io \<Rightarrow> World \<Rightarrow> 'a" where
  "returned m w = projr (fst (m w))"

definition after :: "'a io \<Rightarrow> World \<Rightarrow> World" where
  "after m w = snd (m w)"

section \<open>The session store never throws\<close>

lemmas io_defs = ret_def throw_def and_then_def try_catch_def try_finally_def
  console_log_def console_warn_def console_error_def
  localStorage_setItem_def localStorage_getItem_def localStorage_removeItem_def
  parse_json_def stringify_json_def platform_def

lemma setAuthToken_eq:
  "setAuthToken tok w =
     (Inr (), case raises (localStorage w) (SetItem TOKEN_KEY tok) of
        Some e \<Rightarrow>
          w\<lparr>console := console w @ [(ERROR, ''Error storing auth token in localStorage:'')]\<rparr>
      | None \<Rightarrow>
          w\<lparr>localStorage := (localStorage w)\<lparr>items := (items (localStorage w))(TOKEN_KEY \<mapsto> tok)\<rparr>,
            console := console w @ [(LOG, ''Auth Token stored in localStorage.'')]\<rparr>)"
  by (simp add: setAuthToken_def io_defs split: option.splits)

lemma getAuthToken_eq:
  "getAuthToken w =
     (case raises (localStorage w) (GetItem TOKEN_KEY) of
        Some e \<Rightarrow>
          (Inr None,
           w\<lparr>console := console w @ [(ERROR, ''Error retrieving auth token from localStorage:'')]\<rparr>)
      | None \<Rightarrow> (Inr (items (localStorage w) TOKEN_KEY), w))"
  by (simp add: getAuthToken_def io_defs split: option.splits)

lemma removeAuthToken_eq:
  "removeAuthToken w =
     (Inr (), case raises (localStorage w) (RemoveItem TOKEN_KEY) of
        Some e \<Rightarrow>
          w\<lparr>console := console w @ [(ERROR, ''Error removing auth token from localStorage:'')]\<rparr>
      | None \<Rightarrow>
          w\<lparr>localStorage := (localStorage w)\<lparr>items := (items (localStorage w))(TOKEN_KEY := None)\<rparr>,
            console := console w @ [(LOG, ''Auth Token removed from localStorage.'')]\<rparr>)"
  by (simp add: removeAuthToken_def io_defs split: option.splits)

lemma removeUserFromStorage_eq:
  "removeUserFromStorage w =
     (Inr (), case raises (localStorage w) (RemoveItem USER_KEY) of
        Some e \<Rightarrow>
          w\<lparr>console := console w @ [(ERROR, ''Error removing user object from localStorage:'')]\<rparr>
      | None \<Rightarrow>
          w\<lparr>localStorage := (localStorage w)\<lparr>items := (items (localStorage w))(USER_KEY := None)\<rparr>,
            console := console w @ [(LOG, ''User object removed from localStorage.'')]\<rparr>)"
  by (simp add: removeUserFromStorage_def io_defs split: option.splits)

lemma setUserInStorage_eq:
  "setUserInStorage u w =
     (Inr (), case raises (localStorage w) (SetItem USER_KEY (JSON_stringify w (User_json u))) of
        Some e \<Rightarrow>
          w\<lparr>console := console w @ [(ERROR, ''Error storing user object in localStorage:'')]\<rparr>
      | None \<Rightarrow>
          w\<lparr>localStorage := (localStorage w)
               \<lparr>items := (items (localStorage w))(USER_KEY \<mapsto> JSON_stringify w (User_json u))\<rparr>,
            console := console w @ [(LOG, ''User object stored in localStorage.'')]\<rparr>)"
  by (simp add: setUserInStorage_def io_defs split: option.splits)

lemma getUserFromStorage_eq:
  "getUserFromStorage w =
     (case raises (localStorage w) (GetItem USER_KEY) of
        Some e \<Rightarrow>
          (Inr None, snd (removeUserFromStorage
             (w\<lparr>console := console w
                  @ [(ERROR, ''Error retrieving or parsing user object from localStorage:'')]\<rparr>)))
      | None \<Rightarrow>
          (case items (localStorage w) USER_KEY of
             None \<Rightarrow> (Inr None, w)
           | Some s \<Rightarrow>
               if s = [] then (Inr None, w)
               else (case JSON_parse w s of
                  Inl e \<Rightarrow>
                    (Inr None, snd (removeUserFromStorage
                       (w\<lparr>console := console w
                            @ [(ERROR, ''Error retrieving or parsing user object from localStorage:'')]\<rparr>)))
                | Inr u \<Rightarrow>
                    if basic_check u
                    then (Inr (Some u),
                          w\<lparr>console := console w
                               @ [(LOG, ''User object retrieved from localStorage:'')]\<rparr>)
                    else (Inr None, snd (removeUserFromStorage
                       (w\<lparr>console := console w
                            @ [(WARN, ''Invalid user object found in localStorage. Removing.'')]\<rparr>))))))"
  by (simp add: getUserFromStorage_def removeUserFromStorage_eq io_defs
      split: option.splits sum.splits)

lemma getUserFromStorage_returns: "\<exists>r. fst (getUserFromStorage w) = Inr r"
  by (simp add: getUserFromStorage_eq split: option.splits sum.splits)

text \<open>
  C9. Whatever the storage does, the six operations of the session store return to
  their caller and never throw. When the call to the storage throws, reading the token
  or the user gives \<open>null\<close>, and storing or removing either leaves the storage as it was.
\<close>

theorem storage_adapter_never_throws:
  "fst (setAuthToken tok w) = Inr ()
   \<and> fst (removeAuthToken w) = Inr ()
   \<and> fst (setUserInStorage u w) = Inr ()
   \<and> fst (removeUserFromStorage w) = Inr ()
   \<and> (\<exists>r. fst (getAuthToken w) = Inr r)
   \<and> (\<exists>r. fst (getUserFromStorage w) = Inr r)
   \<and> (raises (localStorage w) (GetItem TOKEN_KEY) \<noteq> None \<longrightarrow> fst (getAuthToken w) = Inr None)
   \<and> (raises (localStorage w) (GetItem USER_KEY) \<noteq> None
        \<longrightarrow> fst (getUserFromStorage w) = Inr None)
   \<and> (raises (localStorage w) (SetItem TOKEN_KEY tok) \<noteq> None
        \<longrightarrow> localStorage (snd (setAuthToken tok w)) = localStorage w)
   \<and> (raises (localStorage w) (SetItem USER_KEY (JSON_stringify w (User_json u))) \<noteq> None
        \<longrightarrow> localStorage (snd (setUserInStorage u w)) = localStorage w)
   \<and> (raises (localStorage w) (RemoveItem TOKEN_KEY) \<noteq> None
        \<longrightarrow> localStorage (snd (removeAuthToken w)) = localStorage w)
   \<and> (raises (localStorage w) (RemoveItem USER_KEY) \<noteq> None
        \<longrightarrow> localStorage (snd (removeUserFromStorage w)) = localStorage w)"
proof -
  have get_token: "\<exists>r. fst (getAuthToken w) = Inr r"
    by (simp add: getAuthToken_eq split: option.splits)
  have get_token_null:
    "raises (localStorage w) (GetItem TOKEN_KEY) \<noteq> None \<longrightarrow> fst (getAuthToken w) = Inr None"
    by (auto simp add: getAuthToken_eq)
  have get_user_null:
    "raises (localStorage w) (GetItem USER_KEY) \<noteq> None
       \<longrightarrow> fst (getUserFromStorage w) = Inr None"
    by (auto simp add: getUserFromStorage_eq)
  have set_token:
    "raises (localStorage w) (SetItem TOKEN_KEY tok) \<noteq> None
       \<longrightarrow> localStorage (snd (setAuthToken tok w)) = localStorage w"
    by (auto simp add: setAuthToken_eq)
  have set_user:
    "raises (localStorage w) (SetItem USER_KEY (JSON_stringify w (User_json u))) \<noteq> None
       \<longrightarrow> localStorage (snd (setUserInStorage u w)) = localStorage w"
    by (auto simp add: setUserInStorage_eq)
  have remove_token:
    "raises (localStorage w) (RemoveItem TOKEN_KEY) \<noteq> None
       \<longrightarrow> localStorage (snd (removeAuthToken w)) = localStorage w"
    by (auto simp add: removeAuthToken_eq)
  have remove_user:
    "raises (localStorage w) (RemoveItem USER_KEY) \<noteq> None
       \<longrightarrow> localStorage (snd (removeUserFromStorage w)) = localStorage w"
    by (auto simp add: removeUserFromStorage_eq)
  show ?thesis
    using get_token getUserFromStorage_returns get_token_null get_user_null set_token set_user
      remove_token remove_user
    by (simp add: setAuthToken_eq removeAuthToken_eq setUserInStorage_eq removeUserFromStorage_eq)
qed

text \<open>
  In the browser that refuses every access, whose storage holds a token and a user: both
  reads give \<open>null\<close>, and the four writes leave the storage as it was.
\<close>

theorem storage_adapter_never_throws_witness:
  "fst (getAuthToken denied_browser) = Inr None
   \<and> fst (getUserFromStorage denied_browser) = Inr None
   \<and> localStorage (snd (setAuthToken ''xyz'' denied_browser)) = localStorage denied_browser
   \<and> localStorage (snd (setUserInStorage example_user denied_browser)) = localStorage denied_browser
   \<and> localStorage (snd (removeAuthToken denied_browser)) = localStorage denied_browser
   \<and> localStorage (snd (removeUserFromStorage denied_browser)) = localStorage denied_browser"
  using storage_adapter_never_throws [of "''xyz''" denied_browser example_user]
  by (simp add: denied_browser_def example_browser_def access_denied_def)

section \<open>What the session store does to the world\<close>

lemmas state_defs = setTokenState_def setUserState_def setIsLoading_def navigate_def

lemmas run_defs = ret_def throw_def and_then_def try_catch_def try_finally_def
  console_log_def console_warn_def console_error_def state_defs

lemma keys_differ: "TOKEN_KEY \<noteq> USER_KEY" "USER_KEY \<noteq> TOKEN_KEY"
  by (simp_all add: TOKEN_KEY_def USER_KEY_def)

lemma truthy_str_Some: "truthy_str v \<Longrightarrow> \<exists>t. v = Some t \<and> t \<noteq> []"
  by (cases v) (simp_all add: truthy_str_def)

lemma truthy_opt_Some: "truthy_opt v \<Longrightarrow> v \<noteq> None"
  by (cases v) (simp_all add: truthy_opt_def)

lemma basic_check_iff: "basic_check u = (typeof u = ''object'' \<and> truthy_opt (lookup u ''email''))"
  by (cases u) (simp_all add: basic_check_def truthy_opt_def)

lemma setAuthToken_world:
  "setAuthToken tok w =
     (Inr (),
      w\<lparr>localStorage := (localStorage w)
           \<lparr>items := (if raises (localStorage w) (SetItem TOKEN_KEY tok) = None
                       then (items (localStorage w))(TOKEN_KEY \<mapsto> tok)
                       else items (localStorage w))\<rparr>,
        console := console w
           @ [if raises (localStorage w) (SetItem TOKEN_KEY tok) = None
              then (LOG, ''Auth Token stored in localStorage.'')
              else (ERROR, ''Error storing auth token in localStorage:'')]\<rparr>)"
  by (simp add: setAuthToken_eq split: option.splits)

lemma removeAuthToken_world:
  "removeAuthToken w =
     (Inr (),
      w\<lparr>localStorage := (localStorage w)
           \<lparr>items := (if raises (localStorage w) (RemoveItem TOKEN_KEY) = None
                       then (items (localStorage w))(TOKEN_KEY := None)
                       else items (localStorage w))\<rparr>,
        console := console w
           @ [if raises (localStorage w) (RemoveItem TOKEN_KEY) = None
              then (LOG, ''Auth Token removed from localStorage.'')
              else (ERROR, ''Error removing auth token from localStorage:'')]\<rparr>)"
  by (simp add: removeAuthToken_eq split: option.splits)

lemma removeUserFromStorage_world:
  "removeUserFromStorage w =
     (Inr (),
      w\<lparr>localStorage := (localStorage w)
           \<lparr>items := (if raises (localStorage w) (RemoveItem USER_KEY) = None
                       then (items (localStorage w))(USER_KEY := None)
                       else items (localStorage w))\<rparr>,
        console := console w
           @ [if raises (localStorage w) (RemoveItem USER_KEY) = None
              then (LOG, ''User object removed from localStorage.'')
              else (ERROR, ''Error removing user object from localStorage:'')]\<rparr>)"
  by (simp add: removeUserFromStorage_eq split: option.splits)

lemma setUserInStorage_world:
  "setUserInStorage u w =
     (Inr (),
      w\<lparr>localStorage := (localStorage w)
           \<lparr>items := (if raises (localStorage w) (SetItem USER_KEY (JSON_stringify w (User_json u))) = None
                       then (items (localStorage w))(USER_KEY \<mapsto> JSON_stringify w (User_json u))
                       else items (localStorage w))\<rparr>,
        console := console w
           @ [if raises (localStorage w) (SetItem USER_KEY (JSON_stringify w (User_json u))) = None
              then (LOG, ''User object stored in localStorage.'')
              else (ERROR, ''Error storing user object in localStorage:'')]\<rparr>)"
  by (simp add: setUserInStorage_eq split: option.splits)

lemma getAuthToken_world:
  "getAuthToken w =
     (Inr (if raises (localStorage w) (GetItem TOKEN_KEY) = None
           then items (localStorage w) TOKEN_KEY else None),
      w\<lparr>console := console w
           @ (if raises (localStorage w) (GetItem TOKEN_KEY) = None then []
              else [(ERROR, ''Error retrieving auth token from localStorage:'')])\<rparr>)"
  by (simp add: getAuthToken_eq split: option.splits)

lemma getUserFromStorage_world:
  "getUserFromStorage w =
     (Inr (case raises (localStorage w) (GetItem USER_KEY) of
            Some e \<Rightarrow> None
          | None \<Rightarrow>
              (case items (localStorage w) USER_KEY of
                 None \<Rightarrow> None
               | Some s \<Rightarrow>
                   if s = [] then None
                   else (case JSON_parse w s of
                      Inl e \<Rightarrow> None
                    | Inr u \<Rightarrow> if basic_check u then Some u else None))),
      w\<lparr>localStorage := (localStorage w)
           \<lparr>items :=
              (if raises (localStorage w) (RemoveItem USER_KEY) = None
                  \<and> (case raises (localStorage w) (GetItem USER_KEY) of
                       Some e \<Rightarrow> True
                     | None \<Rightarrow>
                         (case items (localStorage w) USER_KEY of
                            None \<Rightarrow> False
                          | Some s \<Rightarrow>
                              s \<noteq> [] \<and> (case JSON_parse w s of
                                 Inl e \<Rightarrow> True
                               | Inr u \<Rightarrow> \<not> basic_check u)))
               then (items (localStorage w))(USER_KEY := None)
               else items (localStorage w))\<rparr>,
        console := console w
           @ (case raises (localStorage w) (GetItem USER_KEY) of
                Some e \<Rightarrow>
                  [(ERROR, ''Error retrieving or parsing user object from localStorage:''),
                   if raises (localStorage w) (RemoveItem USER_KEY) = None
                   then (LOG, ''User object removed from localStorage.'')
                   else (ERROR, ''Error removing user object from localStorage:'')]
              | None \<Rightarrow>
                  (case items (localStorage w) USER_KEY of
                     None \<Rightarrow> []
                   | Some s \<Rightarrow>
                       if s = [] then []
                       else (case JSON_parse w s of
                          Inl e \<Rightarrow>
                            [(ERROR, ''Error retrieving or parsing user object from localStorage:''),
                             if raises (localStorage w) (RemoveItem USER_KEY) = None
                             then (LOG, ''User object removed from localStorage.'')
                             else (ERROR, ''Error removing user object from localStorage:'')]
                        | Inr u \<Rightarrow>
                            if basic_check u
                            then [(LOG, ''User object retrieved from localStorage:'')]
                            else [(WARN, ''Invalid user object found in localStorage. Removing.''),
                                  if raises (localStorage w) (RemoveItem USER_KEY) = None
                                  then (LOG, ''User object removed from localStorage.'')
                                  else (ERROR, ''Error removing user object from localStorage:'')])))\<rparr>)"
  by (cases "raises (localStorage w) (RemoveItem USER_KEY)";
      cases "raises (localStorage w) (GetItem USER_KEY)";
      cases "items (localStorage w) USER_KEY";
      simp add: getUserFromStorage_eq removeUserFromStorage_world split: sum.splits)

lemmas store_world = setAuthToken_world removeAuthToken_world setUserInStorage_world
  removeUserFromStorage_world getAuthToken_world getUserFromStorage_world

lemma getAuthToken_after:
  "getAuthToken w = (Inr (returned getAuthToken w), after getAuthToken w)"
  by (simp add: returned_def after_def getAuthToken_world)

lemma getUserFromStorage_after:
  "getUserFromStorage w = (Inr (returned getUserFromStorage w), after getUserFromStorage w)"
  by (simp add: returned_def after_def getUserFromStorage_world)

lemma removeAuthToken_after: "removeAuthToken w = (Inr (), after removeAuthToken w)"
  by (simp add: after_def removeAuthToken_world)

lemma removeUserFromStorage_after:
  "removeUserFromStorage w = (Inr (), after removeUserFromStorage w)"
  by (simp add: after_def removeUserFromStorage_world)

lemma setAuthToken_after: "setAuthToken tok w = (Inr (), after (setAuthToken tok) w)"
  by (simp add: after_def setAuthToken_world)

lemma setUserInStorage_after: "setUserInStorage u w = (Inr (), after (setUserInStorage u) w)"
  by (simp add: after_def setUserInStorage_world)

lemmas store_after = getAuthToken_after getUserFromStorage_after removeAuthToken_after
  removeUserFromStorage_after setAuthToken_after setUserInStorage_after

text \<open>The session store leaves the state variables of the provider alone.\<close>

lemma store_frame:
  "token (after getAuthToken w) = token w"
  "user (after getAuthToken w) = user w"
  "isLoading (after getAuthToken w) = isLoading w"
  "token (after getUserFromStorage w) = token w"
  "user (after getUserFromStorage w) = user w"
  "isLoading (after getUserFromStorage w) = isLoading w"
  "token (after removeAuthToken w) = token w"
  "user (after removeAuthToken w) = user w"
  "isLoading (after removeAuthToken w) = isLoading w"
  "token (after removeUserFromStorage w) = token w"
  "user (after removeUserFromStorage w) = user w"
  "isLoading (after removeUserFromStorage w) = isLoading w"
  "token (after (setAuthToken tok) w) = token w"
  "user (after (setAuthToken tok) w) = user w"
  "isLoading (after (setAuthToken tok) w) = isLoading w"
  "token (after (setUserInStorage u) w) = token w"
  "user (after (setUserInStorage u) w) = user w"
  "isLoading (after (setUserInStorage u) w) = isLoading w"
  by (simp_all add: after_def store_world)

section \<open>Initialize, login and logout\<close>

lemma initialize_state:
  "fst (initialize w) = Inr ()
   \<and> isLoading (snd (initialize w)) = False
   \<and> (token (snd (initialize w)) = None) = (user (snd (initialize w)) = None)
   \<and> isAuthenticated (snd (initialize w))
       = ((\<exists>t. token (snd (initialize w)) = Some t \<and> t \<noteq> [])
          \<and> user (snd (initialize w)) \<noteq> None)"
  by (auto simp add: initialize_def run_defs store_after store_frame isAuthenticated_def
      dest: truthy_str_Some truthy_opt_Some)

lemma login_state:
  "fst (login tok u w) = Inr ()
   \<and> token (snd (login tok u w)) = Some tok
   \<and> user (snd (login tok u w)) = Some (User_json u)"
  by (simp add: login_def run_defs store_after store_frame)

lemma logout_state:
  "fst (logout w) = Inr ()
   \<and> token (snd (logout w)) = None
   \<and> user (snd (logout w)) = None"
  by (simp add: logout_def run_defs store_after store_frame)

text \<open>
  C1, at the input where the code leaves the claim. The storage holds the token
  \<open>abc\<close> and no user: initialization ends not loading and not authenticated, and the
  token is still in the storage. The same happens when the stored user has no email:
  \<open>getUserFromStorage\<close> removes the user and returns \<open>null\<close>, and the token stays.
\<close>

theorem initialize_keeps_orphan_token:
  "isLoading (snd (initialize (example_browser [(''authToken'', ''abc'')] no_failure [] offline)))
     = False
   \<and> isAuthenticated
        (snd (initialize (example_browser [(''authToken'', ''abc'')] no_failure [] offline)))
     = False
   \<and> items (localStorage
        (snd (initialize (example_browser [(''authToken'', ''abc'')] no_failure [] offline))))
        TOKEN_KEY
     = Some ''abc''
   \<and> isAuthenticated
        (snd (initialize (example_browser
           [(''authToken'', ''abc''), (''authUser'', no_email_text)] no_failure
           [(no_email_text, JObject [(''id'', JNum 7)])] offline)))
     = False
   \<and> items (localStorage
        (snd (initialize (example_browser
           [(''authToken'', ''abc''), (''authUser'', no_email_text)] no_failure
           [(no_email_text, JObject [(''id'', JNum 7)])] offline))))
        TOKEN_KEY
     = Some ''abc''
   \<and> items (localStorage
        (snd (initialize (example_browser
           [(''authToken'', ''abc''), (''authUser'', no_email_text)] no_failure
           [(no_email_text, JObject [(''id'', JNum 7)])] offline))))
        USER_KEY
     = None"
  by (simp add: initialize_def run_defs store_world isAuthenticated_def truthy_str_def
      truthy_opt_def lookup_opt_def basic_check_def example_browser_def no_failure_def
      parse_table_def no_email_text_def TOKEN_KEY_def USER_KEY_def)

text \<open>
  C10, as the code has it. After initialization, after a login and after a logout, from
  any state: the token in memory is \<open>null\<close> exactly when the user in memory is, and
  \<open>isAuthenticated\<close> holds exactly when the token is a string that is not empty and the
  user is not \<open>null\<close>.
\<close>

theorem auth_state_invariant:
  "(token (snd (initialize w)) = None) = (user (snd (initialize w)) = None)
   \<and> isAuthenticated (snd (initialize w))
       = ((\<exists>t. token (snd (initialize w)) = Some t \<and> t \<noteq> [])
          \<and> user (snd (initialize w)) \<noteq> None)
   \<and> (token (snd (login tok u w)) = None) = (user (snd (login tok u w)) = None)
   \<and> isAuthenticated (snd (login tok u w))
       = ((\<exists>t. token (snd (login tok u w)) = Some t \<and> t \<noteq> [])
          \<and> user (snd (login tok u w)) \<noteq> None)
   \<and> (token (snd (logout w)) = None) = (user (snd (logout w)) = None)
   \<and> isAuthenticated (snd (logout w))
       = ((\<exists>t. token (snd (logout w)) = Some t \<and> t \<noteq> [])
          \<and> user (snd (logout w)) \<noteq> None)"
proof -
  have "isAuthenticated (snd (login tok u w)) = (tok \<noteq> [])"
    using login_state [of tok u w]
    by (simp add: isAuthenticated_def truthy_str_def truthy_opt_def User_json_def)
  moreover have "isAuthenticated (snd (logout w)) = False"
    using logout_state [of w] by (simp add: isAuthenticated_def truthy_str_def)
  ultimately show ?thesis
    using initialize_state [of w] login_state [of tok u w] logout_state [of w] by simp
qed

text \<open>
  The claim as stated fails after a login with the empty token: the token and the user
  are both not \<open>null\<close>, and \<open>isAuthenticated\<close> is false.
\<close>

theorem login_empty_token_counterexample:
  "token (snd (login [] example_user fresh_browser)) = Some []
   \<and> user (snd (login [] example_user fresh_browser)) = Some (User_json example_user)
   \<and> isAuthenticated (snd (login [] example_user fresh_browser)) = False"
  using login_state [of "[]" example_user fresh_browser]
  by (simp add: isAuthenticated_def truthy_str_def)

section \<open>Reading the stored user\<close>

text \<open>
  C4, as the code has it. What \<open>getUserFromStorage\<close> returns is an object with an
  email that is not empty: its check reads no identifier. A stored text that is not
  empty and does not parse, or parses to a value that fails the check, gives \<open>null\<close>,
  and the entry is gone from the storage when its removal does not throw.
\<close>

theorem getUserFromStorage_basic_check:
  "(fst (getUserFromStorage w) = Inr (Some u)
      \<longrightarrow> typeof u = ''object'' \<and> truthy_opt (lookup u ''email''))
   \<and> (raises (localStorage w) (GetItem USER_KEY) = None
        \<and> items (localStorage w) USER_KEY = Some s \<and> s \<noteq> []
        \<and> (case JSON_parse w s of Inl e \<Rightarrow> True | Inr v \<Rightarrow> \<not> basic_check v)
      \<longrightarrow> fst (getUserFromStorage w) = Inr None
          \<and> (raises (localStorage w) (RemoveItem USER_KEY) = None
               \<longrightarrow> items (localStorage (snd (getUserFromStorage w))) USER_KEY = None))"
proof -
  have returned_checked:
    "fst (getUserFromStorage w) = Inr (Some u)
       \<longrightarrow> typeof u = ''object'' \<and> truthy_opt (lookup u ''email'')"
    by (auto simp add: getUserFromStorage_world basic_check_iff
        split: option.splits sum.splits if_splits)
  have invalid_cleared:
    "raises (localStorage w) (GetItem USER_KEY) = None
       \<and> items (localStorage w) USER_KEY = Some s \<and> s \<noteq> []
       \<and> (case JSON_parse w s of Inl e \<Rightarrow> True | Inr v \<Rightarrow> \<not> basic_check v)
     \<longrightarrow> fst (getUserFromStorage w) = Inr None
         \<and> (raises (localStorage w) (RemoveItem USER_KEY) = None
              \<longrightarrow> items (localStorage (snd (getUserFromStorage w))) USER_KEY = None)"
    by (auto simp add: getUserFromStorage_world split: sum.splits)
  show ?thesis
    using returned_checked invalid_cleared by blast
qed

text \<open>
  The stored user \<open>{"email":"a@b.com"}\<close> is returned, an object with an email. The
  stored user \<open>{"id":7}\<close> has no email: the read gives \<open>null\<close> and the entry is removed.
\<close>

theorem getUserFromStorage_basic_check_witness:
  "fst (getUserFromStorage (example_browser [(''authUser'', email_only_text)] no_failure
          [(email_only_text, JObject [(''email'', JString ''a@b.com'')])] offline))
     = Inr (Some (JObject [(''email'', JString ''a@b.com'')]))
   \<and> typeof (JObject [(''email'', JString ''a@b.com'')]) = ''object''
   \<and> truthy_opt (lookup (JObject [(''email'', JString ''a@b.com'')]) ''email'')
   \<and> fst (getUserFromStorage (example_browser [(''authUser'', no_email_text)] no_failure
          [(no_email_text, JObject [(''id'', JNum 7)])] offline)) = Inr None
   \<and> items (localStorage (snd (getUserFromStorage
          (example_browser [(''authUser'', no_email_text)] no_failure
             [(no_email_text, JObject [(''id'', JNum 7)])] offline)))) USER_KEY = None"
proof -
  have returned_user:
    "fst (getUserFromStorage (example_browser [(''authUser'', email_only_text)] no_failure
            [(email_only_text, JObject [(''email'', JString ''a@b.com'')])] offline))
       = Inr (Some (JObject [(''email'', JString ''a@b.com'')]))"
    by (simp add: getUserFromStorage_world example_browser_def no_failure_def parse_table_def
        email_only_text_def basic_check_def truthy_opt_def USER_KEY_def)
  show ?thesis
    using returned_user
      getUserFromStorage_basic_check
        [of "example_browser [(''authUser'', email_only_text)] no_failure
               [(email_only_text, JObject [(''email'', JString ''a@b.com'')])] offline"
            "JObject [(''email'', JString ''a@b.com'')]" email_only_text]
      getUserFromStorage_basic_check
        [of "example_browser [(''authUser'', no_email_text)] no_failure
               [(no_email_text, JObject [(''id'', JNum 7)])] offline"
            "JNull" no_email_text]
    by (simp add: example_browser_def no_failure_def parse_table_def no_email_text_def
        email_only_text_def basic_check_def truthy_opt_def USER_KEY_def)
qed

text \<open>
  The claim as stated fails on the stored user \<open>{"email":"a@b.com"}\<close>: it is returned,
  and it has no identifier.
\<close>

theorem getUserFromStorage_no_identifier_counterexample:
  "fst (getUserFromStorage (example_browser [(''authUser'', email_only_text)] no_failure
          [(email_only_text, JObject [(''email'', JString ''a@b.com'')])] offline))
     = Inr (Some (JObject [(''email'', JString ''a@b.com'')]))
   \<and> lookup (JObject [(''email'', JString ''a@b.com'')]) ''id'' = None"
  by (simp add: getUserFromStorage_world example_browser_def no_failure_def parse_table_def
      email_only_text_def basic_check_def truthy_opt_def USER_KEY_def)

text \<open>
  C7, as the code has it. Where reading and removing the entry do not throw: for a
  stored text that is not empty and does not parse, or parses to a value that fails the
  check of \<open>getUserFromStorage\<close>, the first read gives \<open>null\<close> and removes the entry,
  and a second read gives \<open>null\<close> and changes nothing.
\<close>

theorem getUserFromStorage_self_healing:
  assumes "raises (localStorage w) (GetItem USER_KEY) = None"
    and "raises (localStorage w) (RemoveItem USER_KEY) = None"
    and "items (localStorage w) USER_KEY = Some s"
    and "s \<noteq> []"
    and "case JSON_parse w s of Inl e \<Rightarrow> True | Inr v \<Rightarrow> \<not> basic_check v"
  shows "fst (getUserFromStorage w) = Inr None
    \<and> items (localStorage (snd (getUserFromStorage w))) USER_KEY = None
    \<and> getUserFromStorage (snd (getUserFromStorage w)) = (Inr None, snd (getUserFromStorage w))"
proof -
  define w1 where "w1 = snd (getUserFromStorage w)"
  have first: "fst (getUserFromStorage w) = Inr None"
    using assms by (auto simp add: getUserFromStorage_world split: sum.splits)
  have cleaned:
    "items (localStorage w1) USER_KEY = None"
    "raises (localStorage w1) (GetItem USER_KEY) = None"
    using assms by (auto simp add: w1_def getUserFromStorage_world split: sum.splits)
  have "getUserFromStorage w1 = (Inr None, w1)"
    using cleaned by (simp add: getUserFromStorage_eq)
  then show ?thesis
    using first cleaned by (simp add: w1_def)
qed

text \<open>
  The stored text \<open>{"id":7\<close> is cut off and does not parse.
\<close>

theorem getUserFromStorage_self_healing_witness:
  "fst (getUserFromStorage (example_browser [(''authUser'', ''{\"id\":7'')] no_failure [] offline))
     = Inr None
   \<and> items (localStorage (snd (getUserFromStorage
        (example_browser [(''authUser'', ''{\"id\":7'')] no_failure [] offline)))) USER_KEY = None
   \<and> getUserFromStorage (snd (getUserFromStorage
        (example_browser [(''authUser'', ''{\"id\":7'')] no_failure [] offline)))
     = (Inr None, snd (getUserFromStorage
        (example_browser [(''authUser'', ''{\"id\":7'')] no_failure [] offline)))"
  using getUserFromStorage_self_healing
    [of "example_browser [(''authUser'', ''{\"id\":7'')] no_failure [] offline" "''{\"id\":7''"]
  by (simp add: example_browser_def no_failure_def parse_table_def USER_KEY_def)

text \<open>
  The claim as stated fails on an incomplete entry that has an email and no identifier:
  the first read returns it, and the entry stays in the storage.
\<close>

theorem getUserFromStorage_incomplete_counterexample:
  "fst (getUserFromStorage (example_browser [(''authUser'', named_email_text)] no_failure
          [(named_email_text,
            JObject [(''first_name'', JString ''Ada''), (''email'', JString ''a@b.com'')])] offline))
     = Inr (Some (JObject [(''first_name'', JString ''Ada''), (''email'', JString ''a@b.com'')]))
   \<and> items (localStorage (snd (getUserFromStorage
          (example_browser [(''authUser'', named_email_text)] no_failure
             [(named_email_text,
               JObject [(''first_name'', JString ''Ada''), (''email'', JString ''a@b.com'')])]
             offline)))) USER_KEY
     = Some named_email_text"
  by (simp add: getUserFromStorage_world example_browser_def no_failure_def parse_table_def
      named_email_text_def basic_check_def truthy_opt_def USER_KEY_def)

section \<open>Login and reload\<close>

text \<open>
  C8, as the code has it. For a token that is not empty and a user whose \<open>id\<close>,
  \<open>email\<close> and \<open>patronId\<close> are all not empty or zero, in a browser where storing and
  reading the two entries do not throw and where the JSON text of the user is not empty
  and parses back to the user: a login, then a reload, then the initialization end
  authenticated with the same token and the same user.
\<close>

theorem login_then_reload:
  assumes tok: "tok \<noteq> []"
    and valid: "id' u \<noteq> 0" "email u \<noteq> []" "patronId u \<noteq> 0"
    and writes: "raises (localStorage w) (SetItem TOKEN_KEY tok) = None"
      "raises (localStorage w) (SetItem USER_KEY (JSON_stringify w (User_json u))) = None"
    and reads: "raises (localStorage w) (GetItem TOKEN_KEY) = None"
      "raises (localStorage w) (GetItem USER_KEY) = None"
    and codec: "JSON_stringify w (User_json u) \<noteq> []"
      "JSON_parse w (JSON_stringify w (User_json u)) = Inr (User_json u)"
  shows "isLoading (snd (initialize (mount (snd (login tok u w))))) = False
    \<and> isAuthenticated (snd (initialize (mount (snd (login tok u w)))))
    \<and> token (snd (initialize (mount (snd (login tok u w))))) = Some tok
    \<and> user (snd (initialize (mount (snd (login tok u w))))) = Some (User_json u)"
proof -
  define w1 where "w1 = mount (snd (login tok u w))"
  have stored:
    "items (localStorage w1) TOKEN_KEY = Some tok"
    "items (localStorage w1) USER_KEY = Some (JSON_stringify w (User_json u))"
    "raises (localStorage w1) = raises (localStorage w)"
    "JSON_parse w1 = JSON_parse w"
    using writes
    by (simp_all add: w1_def mount_def login_def run_defs store_world keys_differ)
  have check: "basic_check (User_json u)"
    using valid by (simp add: basic_check_def User_json_def truthy_opt_def)
  have fields:
    "truthy_opt (lookup (User_json u) ''id'')"
    "truthy_opt (lookup (User_json u) ''email'')"
    "truthy_opt (lookup (User_json u) ''patronId'')"
    "truthy (User_json u)"
    using valid by (simp_all add: User_json_def truthy_opt_def)
  have "isLoading (snd (initialize w1)) = False
    \<and> isAuthenticated (snd (initialize w1))
    \<and> token (snd (initialize w1)) = Some tok
    \<and> user (snd (initialize w1)) = Some (User_json u)"
    using tok reads codec stored check fields
    by (simp add: initialize_def run_defs store_world isAuthenticated_def truthy_str_def
        truthy_opt_def lookup_opt_def)
  then show ?thesis
    by (simp add: w1_def)
qed

theorem login_then_reload_witness:
  "isLoading (snd (initialize (mount (snd (login ''abc'' example_user fresh_browser))))) = False
   \<and> isAuthenticated (snd (initialize (mount (snd (login ''abc'' example_user fresh_browser)))))
   \<and> token (snd (initialize (mount (snd (login ''abc'' example_user fresh_browser)))))
       = Some ''abc''
   \<and> user (snd (initialize (mount (snd (login ''abc'' example_user fresh_browser)))))
       = Some (User_json example_user)"
  using login_then_reload [of "''abc''" example_user fresh_browser]
  by (simp add: fresh_browser_def example_browser_def no_failure_def example_user_def
      example_user_text_def stringify_table_def parse_table_def User_json_def)

text \<open>
  The claim as stated fails for a user with an identifier and an email whose
  \<open>patronId\<close> is zero, and for the empty token: in a browser whose storage works, after
  the login and the reload the initialization ends not authenticated, without a token.
\<close>

theorem login_then_reload_counterexample:
  "isAuthenticated (snd (initialize (mount (snd (login ''abc'' unlinked_user
      (example_browser [] no_failure [(unlinked_user_text, User_json unlinked_user)] offline))))))
     = False
   \<and> token (snd (initialize (mount (snd (login ''abc'' unlinked_user
      (example_browser [] no_failure [(unlinked_user_text, User_json unlinked_user)] offline))))))
     = None
   \<and> isAuthenticated (snd (initialize (mount (snd (login [] example_user fresh_browser)))))
     = False
   \<and> token (snd (initialize (mount (snd (login [] example_user fresh_browser))))) = None"
  by (simp add: initialize_def login_def mount_def run_defs store_world isAuthenticated_def
      truthy_str_def truthy_opt_def lookup_opt_def basic_check_def fresh_browser_def
      example_browser_def no_failure_def parse_table_def stringify_table_def
      example_user_def example_user_text_def unlinked_user_def unlinked_user_text_def
      User_json_def TOKEN_KEY_def USER_KEY_def)

section \<open>The request client\<close>

lemmas request_defs = handleRequest_def Let_def ret_def throw_def and_then_def try_catch_def
  console_log_def console_warn_def console_error_def parse_json_def stringify_json_def
  platform_def fetch_call_def response_text_def member_def new_Error_def createApiError_def

lemma truthy_or_else: "truthy b \<Longrightarrow> truthy (or_else a b)"
  by (simp add: or_else_def split: option.splits)

lemma decimal_examples:
  "decimal 200 = ''200''" "decimal 204 = ''204''" "decimal 400 = ''400''" "decimal 500 = ''500''"
  by code_simp+

lemma handleRequest_requests:
  "requests (snd (handleRequest url options w))
     = requests w @ [(url, options\<lparr>headers := defaultHeaders ++ headers options\<rparr>)]"
  by (simp add: request_defs split: sum.splits thrown.splits option.splits)

lemma handleRequest_rejections:
  "case fst (handleRequest url options w) of
     Inr payload \<Rightarrow> True
   | Inl (Plain e) \<Rightarrow> False
   | Inl (Api a) \<Rightarrow> error a \<and> isApiError a \<and> truthy (errorString a)"
  by (simp add: request_defs truthy_or_else split: sum.splits thrown.splits option.splits)

lemma handleRequest_returns:
  "(fst (handleRequest url options w) = Inr payload) =
     (case fetch w url (options\<lparr>headers := defaultHeaders ++ headers options\<rparr>) of
        Inl e \<Rightarrow> False
      | Inr response \<Rightarrow>
          if res_status response = 204 then payload = JObject []
          else ok response \<and>
            (case res_text response of
               Inl e \<Rightarrow> False
             | Inr responseText \<Rightarrow>
                 (case JSON_parse w responseText of
                    Inl e \<Rightarrow> payload = JString responseText
                  | Inr responseData \<Rightarrow>
                      payload = responseData \<and> responseData \<noteq> JNull
                      \<and> lookup responseData ''error'' \<noteq> Some (JBool True))))"
  by (auto simp add: request_defs split: sum.splits thrown.splits option.splits)


text \<open>
  C2. Whatever the network answers (a rejection, or a response of any status, with any
  status text, whose body cannot be read, or is any text), and whatever \<open>JSON.parse\<close>
  makes of the body, \<open>handleRequest\<close> issues the request and then does exactly one of
  two things. It returns a payload, and that only for a response of status 204 (the
  empty object), or of a status from 200 to 299 whose body does not parse (the text of
  the body) or parses to a value other than \<open>null\<close> without the error flag (that
  value). Or it throws an \<open>ApiError\<close> whose \<open>error\<close> and \<open>isApiError\<close> flags are true
  and whose \<open>errorString\<close> is not empty; it throws nothing else.
\<close>

theorem handleRequest_outcome:
  "(case fst (handleRequest url options w) of
      Inr payload \<Rightarrow> True
    | Inl (Plain e) \<Rightarrow> False
    | Inl (Api a) \<Rightarrow> error a \<and> isApiError a \<and> truthy (errorString a))
   \<and> ((fst (handleRequest url options w) = Inr payload) =
     (case fetch w url (options\<lparr>headers := defaultHeaders ++ headers options\<rparr>) of
        Inl e \<Rightarrow> False
      | Inr response \<Rightarrow>
          if res_status response = 204 then payload = JObject []
          else ok response \<and>
            (case res_text response of
               Inl e \<Rightarrow> False
             | Inr responseText \<Rightarrow>
                 (case JSON_parse w responseText of
                    Inl e \<Rightarrow> payload = JString responseText
                  | Inr responseData \<Rightarrow>
                      payload = responseData \<and> responseData \<noteq> JNull
                      \<and> lookup responseData ''error'' \<noteq> Some (JBool True)))))
   \<and> requests (snd (handleRequest url options w))
       = requests w @ [(url, options\<lparr>headers := defaultHeaders ++ headers options\<rparr>)]"
  using handleRequest_rejections [of url options w] handleRequest_returns [of url options w payload]
    handleRequest_requests [of url options w]
  by simp

text \<open>
  The error flag, for a response whose body is read: any status but 204.
\<close>

lemma handleRequest_error_flag_read:
  assumes "fetch w url (options\<lparr>headers := defaultHeaders ++ headers options\<rparr>) = Inr response"
    and "res_status response \<noteq> 204"
    and "res_text response = Inr responseText"
    and "JSON_parse w responseText = Inr responseData"
    and "lookup responseData ''error'' = Some (JBool True)"
    and "ToString (Number_toString w)
           (or_else (lookup responseData ''errorString'')
              (JString (''API Error: '' @ decimal (res_status response)))) = Some m"
  shows "fst (handleRequest url options w) =
     Inl (Api
       \<lparr> message = m,
         stack = None,
         error = True,
         errorString = or_else (lookup responseData ''errorString'')
            (JString (''API Error: '' @ decimal (res_status response))),
         details = lookup responseData ''details'',
         status = Some (res_status response),
         isApiError = True,
         apiResponse = Some responseData \<rparr>)"
proof -
  have "responseData \<noteq> JNull"
    using assms(5) by auto
  then show ?thesis
    using assms by (simp add: request_defs)
qed

text \<open>
  C5, as the code has it. The responses are those that \<open>fetch\<close> delivers: one of status
  204 has the empty body, and the empty text is not JSON. For such a response whose body
  parses to an object with \<open>error\<close> set to \<open>true\<close>, whatever the status: where the
  \<open>errorString\<close> of the body, when it is present and truthy, and \<open>API Error: status\<close>
  otherwise, converts to a string, \<open>handleRequest\<close> throws an \<open>ApiError\<close> with that
  value as its \<open>errorString\<close>, that string as its message, the status, the \<open>details\<close>
  of the body, and the body.
\<close>

theorem handleRequest_error_flag:
  assumes "fetch w url (options\<lparr>headers := defaultHeaders ++ headers options\<rparr>) = Inr response"
    and "res_text response = Inr responseText"
    and "res_status response = 204 \<longrightarrow> responseText = []"
    and "JSON_parse w [] = Inl e"
    and "JSON_parse w responseText = Inr responseData"
    and "lookup responseData ''error'' = Some (JBool True)"
    and "ToString (Number_toString w)
           (or_else (lookup responseData ''errorString'')
              (JString (''API Error: '' @ decimal (res_status response)))) = Some m"
  shows "fst (handleRequest url options w) =
     Inl (Api
       \<lparr> message = m,
         stack = None,
         error = True,
         errorString = or_else (lookup responseData ''errorString'')
            (JString (''API Error: '' @ decimal (res_status response))),
         details = lookup responseData ''details'',
         status = Some (res_status response),
         isApiError = True,
         apiResponse = Some responseData \<rparr>)"
proof -
  have "res_status response \<noteq> 204"
    using assms(3,4,5) by auto
  then show ?thesis
    using assms(1,2,5,6,7) by (simp add: handleRequest_error_flag_read)
qed

text \<open>
  A response of status 200 whose body has the error flag and an error string, and one
  of status 500 whose body has the error flag alone.
\<close>

theorem handleRequest_error_flag_witness:
  "fst (handleRequest ''/api/patron/auth/register'' no_options
         (example_browser [] no_failure [(error_body_text, error_body)]
            (respond 200 ''OK'' error_body_text)))
     = Inl (Api \<lparr> message = ''Email already registered'', stack = None,
                   error = True,
                   errorString = JString ''Email already registered'',
                   details = None,
                   status = Some 200,
                   isApiError = True,
                   apiResponse = Some error_body \<rparr>)
   \<and> fst (handleRequest ''/api/requests'' no_options
         (example_browser [] no_failure [(flag_only_text, JObject [(''error'', JBool True)])]
            (respond 500 ''Internal Server Error'' flag_only_text)))
     = Inl (Api \<lparr> message = ''API Error: 500'', stack = None,
                   error = True,
                   errorString = JString ''API Error: 500'',
                   details = None,
                   status = Some 500,
                   isApiError = True,
                   apiResponse = Some (JObject [(''error'', JBool True)]) \<rparr>)"
  using handleRequest_error_flag
    [of "example_browser [] no_failure [(error_body_text, error_body)]
           (respond 200 ''OK'' error_body_text)"
        "''/api/patron/auth/register''" no_options
        "\<lparr> res_status = 200, statusText = ''OK'', res_text = Inr error_body_text \<rparr>"
        error_body_text "\<lparr> message = ''Unexpected token'', stack = None \<rparr>" error_body
        "''Email already registered''"]
    handleRequest_error_flag
    [of "example_browser [] no_failure [(flag_only_text, JObject [(''error'', JBool True)])]
           (respond 500 ''Internal Server Error'' flag_only_text)"
        "''/api/requests''" no_options
        "\<lparr> res_status = 500, statusText = ''Internal Server Error'',
            res_text = Inr flag_only_text \<rparr>"
        flag_only_text "\<lparr> message = ''Unexpected token'', stack = None \<rparr>"
        "JObject [(''error'', JBool True)]" "''API Error: 500''"]
  by (simp add: example_browser_def respond_def parse_table_def error_body_def or_else_def
      error_body_text_def flag_only_text_def decimal_examples)

text \<open>
  The claim as stated fails on two responses of status 400. The body
  \<open>{"error":true,"errorString":""}\<close> provides the empty error string, and the error
  thrown has \<open>API Error: 400\<close> in its place. The body
  \<open>{"error":true,"errorString":{"toString":1},"details":"d"}\<close> provides an error
  string that has no conversion to a string: \<open>new Error\<close> throws, and the error that
  leaves \<open>handleRequest\<close> has the message of that \<open>TypeError\<close>, no status, its stack
  as details, and no body.
\<close>

theorem handleRequest_error_flag_counterexample:
  "fst (handleRequest ''/api/requests'' no_options
         (example_browser [] no_failure
            [(empty_error_text, JObject [(''error'', JBool True), (''errorString'', JString [])])]
            (respond 400 ''Bad Request'' empty_error_text)))
     = Inl (Api \<lparr> message = ''API Error: 400'', stack = None,
                   error = True,
                   errorString = JString ''API Error: 400'',
                   details = None,
                   status = Some 400,
                   isApiError = True,
                   apiResponse =
                     Some (JObject [(''error'', JBool True), (''errorString'', JString [])]) \<rparr>)
   \<and> fst (handleRequest ''/api/requests'' no_options
         (example_browser [] no_failure
            [(object_error_text,
              JObject [(''error'', JBool True),
                       (''errorString'', JObject [(''toString'', JNum 1)]),
                       (''details'', JString ''d'')])]
            (respond 400 ''Bad Request'' object_error_text)))
     = Inl (Api \<lparr> message = ''Cannot convert object to primitive value'', stack = None,
                   error = True,
                   errorString = JString ''Cannot convert object to primitive value'',
                   details = Some (JString ''TypeError: Cannot convert object to primitive value''),
                   status = None,
                   isApiError = True,
                   apiResponse = None \<rparr>)"
  by (simp add: request_defs example_browser_def respond_def parse_table_def or_else_def
      empty_error_text_def object_error_text_def example_TypeError_def decimal_examples)

text \<open>
  C6, as the code has it. For a response of a status other than 204 whose body does not
  parse: with a status from 200 to 299 the text of the body is returned as it is;
  with any other status \<open>handleRequest\<close> throws an \<open>ApiError\<close> whose \<open>errorString\<close> is
  \<open>Request failed:\<close> with the status and the status text, or the text of the body when
  the status text is empty, with no details and no body.
\<close>

theorem handleRequest_unparsed_body:
  assumes "fetch w url (options\<lparr>headers := defaultHeaders ++ headers options\<rparr>) = Inr response"
    and "res_status response \<noteq> 204"
    and "res_text response = Inr responseText"
    and "JSON_parse w responseText = Inl e"
  shows "fst (handleRequest url options w) =
     (if ok response then Inr (JString responseText)
      else Inl (Api
        \<lparr> message = ''Request failed: '' @ decimal (res_status response) @ '' ''
             @ (if statusText response \<noteq> [] then statusText response else responseText),
          stack = None,
          error = True,
          errorString = JString (''Request failed: '' @ decimal (res_status response) @ '' ''
             @ (if statusText response \<noteq> [] then statusText response else responseText)),
          details = None,
          status = Some (res_status response),
          isApiError = True,
          apiResponse = None \<rparr>))"
  using assms by (simp add: request_defs)

text \<open>The health check answering \<open>OK\<close> in plain text, and a server error in HTML.\<close>

theorem handleRequest_unparsed_body_witness:
  "fst (handleRequest ''/api/health'' no_options
         (example_browser [] no_failure [] (respond 200 ''OK'' ''OK'')))
     = Inr (JString ''OK'')
   \<and> fst (handleRequest ''/api/health'' no_options
         (example_browser [] no_failure [] (respond 500 ''Internal Server Error'' ''<h1>Oops</h1>'')))
     = Inl (Api \<lparr> message = ''Request failed: 500 Internal Server Error'', stack = None,
                   error = True,
                   errorString = JString ''Request failed: 500 Internal Server Error'',
                   details = None,
                   status = Some 500,
                   isApiError = True,
                   apiResponse = None \<rparr>)"
  using handleRequest_unparsed_body
    [of "example_browser [] no_failure [] (respond 200 ''OK'' ''OK'')"
        "''/api/health''" no_options
        "\<lparr> res_status = 200, statusText = ''OK'', res_text = Inr ''OK'' \<rparr>"
        "''OK''" "\<lparr> message = ''Unexpected token'', stack = None \<rparr>"]
    handleRequest_unparsed_body
    [of "example_browser [] no_failure [] (respond 500 ''Internal Server Error'' ''<h1>Oops</h1>'')"
        "''/api/health''" no_options
        "\<lparr> res_status = 500, statusText = ''Internal Server Error'',
            res_text = Inr ''<h1>Oops</h1>'' \<rparr>"
        "''<h1>Oops</h1>''" "\<lparr> message = ''Unexpected token'', stack = None \<rparr>"]
  by (simp add: example_browser_def respond_def parse_table_def ok_def decimal_examples)

text \<open>
  The claim as stated fails at status 204, a status that indicates success: the body,
  the empty text, does not parse, and the empty object is returned in its place.
\<close>

theorem handleRequest_unparsed_body_counterexample:
  "fst (handleRequest ''/api/patron/favorites/3'' no_options
         (example_browser [] no_failure [] (respond 204 ''No Content'' [])))
     = Inr (JObject [])
   \<and> ok \<lparr> res_status = 204, statusText = ''No Content'', res_text = Inr [] \<rparr>
   \<and> JSON_parse (example_browser [] no_failure [] (respond 204 ''No Content'' [])) []
       = Inl \<lparr> message = ''Unexpected token'', stack = None \<rparr>
   \<and> JObject [] \<noteq> JString []"
  by (simp add: request_defs example_browser_def respond_def parse_table_def ok_def)

section \<open>Requests that carry the token\<close>

text \<open>
  C3, as the code has it. With a token that is not empty, each of the three operations
  that take a token issues one request, whose headers are the default ones and
  \<open>Authorization: Bearer\<close> with the token. With the empty token, each of them throws
  an \<open>ApiError\<close> of status 401 before anything else: no request is issued and nothing
  is logged. \<open>getAuthHeaders\<close> alone, given the empty token, returns no header and
  logs a warning.
\<close>

theorem authenticated_request_headers:
  "(tok \<noteq> [] \<longrightarrow>
      requests (snd (getFavoriteSongs tok w))
        = requests w @ [(API_BASE_URL w @ ''/patron/favorites'',
             \<lparr> http_method = None,
               headers = defaultHeaders ++ [''Authorization'' \<mapsto> ''Bearer '' @ tok],
               body = None \<rparr>)]
      \<and> requests (snd (addSongToFavorites tok songId w))
        = requests w @ [(API_BASE_URL w @ ''/patron/favorites'',
             \<lparr> http_method = Some ''POST'',
               headers = defaultHeaders ++ [''Authorization'' \<mapsto> ''Bearer '' @ tok],
               body = Some (JSON_stringify w (JObject [(''song_id'', JNum songId)])) \<rparr>)]
      \<and> requests (snd (removeSongFromFavorites tok sid w))
        = requests w @ [(API_BASE_URL w @ ''/patron/favorites/''
               @ encodeURIComponent w (String_songId w sid),
             \<lparr> http_method = Some ''DELETE'',
               headers = defaultHeaders ++ [''Authorization'' \<mapsto> ''Bearer '' @ tok],
               body = None \<rparr>)]
      \<and> (defaultHeaders ++ [''Authorization'' \<mapsto> ''Bearer '' @ tok]) ''Authorization''
        = Some (''Bearer '' @ tok))
   \<and> getFavoriteSongs [] w
       = (Inl (Api \<lparr> message = ''Authentication token is required.'', stack = None,
                      error = True,
                      errorString = JString ''Authentication token is required.'',
                      details = None,
                      status = Some 401,
                      isApiError = True,
                      apiResponse = None \<rparr>), w)
   \<and> addSongToFavorites [] songId w
       = (Inl (Api \<lparr> message = ''Authentication token is required.'', stack = None,
                      error = True,
                      errorString = JString ''Authentication token is required.'',
                      details = None,
                      status = Some 401,
                      isApiError = True,
                      apiResponse = None \<rparr>), w)
   \<and> removeSongFromFavorites [] sid w
       = (Inl (Api \<lparr> message = ''Authentication token is required.'', stack = None,
                      error = True,
                      errorString = JString ''Authentication token is required.'',
                      details = None,
                      status = Some 401,
                      isApiError = True,
                      apiResponse = None \<rparr>), w)
   \<and> getAuthHeaders [] w
       = (Inr Map.empty,
          w\<lparr>console := console w @ [(WARN, ''Attempted to get Auth Headers without a token.'')]\<rparr>)"
proof -
  have empty:
    "getFavoriteSongs [] w
       = (Inl (Api \<lparr> message = ''Authentication token is required.'', stack = None,
                      error = True,
                      errorString = JString ''Authentication token is required.'',
                      details = None,
                      status = Some 401,
                      isApiError = True,
                      apiResponse = None \<rparr>), w)"
    "addSongToFavorites [] songId w
       = (Inl (Api \<lparr> message = ''Authentication token is required.'', stack = None,
                      error = True,
                      errorString = JString ''Authentication token is required.'',
                      details = None,
                      status = Some 401,
                      isApiError = True,
                      apiResponse = None \<rparr>), w)"
    "removeSongFromFavorites [] sid w
       = (Inl (Api \<lparr> message = ''Authentication token is required.'', stack = None,
                      error = True,
                      errorString = JString ''Authentication token is required.'',
                      details = None,
                      status = Some 401,
                      isApiError = True,
                      apiResponse = None \<rparr>), w)"
    by (simp_all add: getFavoriteSongs_def addSongToFavorites_def removeSongFromFavorites_def
        throw_def and_then_def ret_def new_Error_def createApiError_def)
  have helper:
    "getAuthHeaders [] w
       = (Inr Map.empty,
          w\<lparr>console := console w @ [(WARN, ''Attempted to get Auth Headers without a token.'')]\<rparr>)"
    by (simp add: getAuthHeaders_def and_then_def console_warn_def ret_def)
  have issued:
    "tok \<noteq> [] \<longrightarrow>
      requests (snd (getFavoriteSongs tok w))
        = requests w @ [(API_BASE_URL w @ ''/patron/favorites'',
             \<lparr> http_method = None,
               headers = defaultHeaders ++ [''Authorization'' \<mapsto> ''Bearer '' @ tok],
               body = None \<rparr>)]
      \<and> requests (snd (addSongToFavorites tok songId w))
        = requests w @ [(API_BASE_URL w @ ''/patron/favorites'',
             \<lparr> http_method = Some ''POST'',
               headers = defaultHeaders ++ [''Authorization'' \<mapsto> ''Bearer '' @ tok],
               body = Some (JSON_stringify w (JObject [(''song_id'', JNum songId)])) \<rparr>)]
      \<and> requests (snd (removeSongFromFavorites tok sid w))
        = requests w @ [(API_BASE_URL w @ ''/patron/favorites/''
               @ encodeURIComponent w (String_songId w sid),
             \<lparr> http_method = Some ''DELETE'',
               headers = defaultHeaders ++ [''Authorization'' \<mapsto> ''Bearer '' @ tok],
               body = None \<rparr>)]"
    by (simp add: getFavoriteSongs_def addSongToFavorites_def removeSongFromFavorites_def
        getAuthHeaders_def and_then_def ret_def stringify_json_def handleRequest_requests)
  have header:
    "(defaultHeaders ++ [''Authorization'' \<mapsto> ''Bearer '' @ tok]) ''Authorization''
       = Some (''Bearer '' @ tok)"
    by simp
  show ?thesis
    using empty helper issued header by blast
qed

text \<open>The favorites of the token \<open>abc\<close>, with no environment variable set.\<close>

theorem authenticated_request_headers_witness:
  "requests (snd (getFavoriteSongs ''abc'' fresh_browser))
     = [(''http://localhost:3000/api/patron/favorites'',
         \<lparr> http_method = None,
           headers = defaultHeaders ++ [''Authorization'' \<mapsto> ''Bearer abc''],
           body = None \<rparr>)]
   \<and> (defaultHeaders ++ [''Authorization'' \<mapsto> ''Bearer abc'']) ''Authorization''
       = Some ''Bearer abc''"
  using authenticated_request_headers [of "''abc''" fresh_browser 3 "Inl 3"]
  by (simp add: fresh_browser_def example_browser_def API_BASE_URL_def)

text \<open>
  The claim as stated fails for the empty token: the operation throws, issues no request
  and logs no warning.
\<close>

theorem empty_token_counterexample:
  "fst (getFavoriteSongs [] fresh_browser)
     = Inl (Api \<lparr> message = ''Authentication token is required.'', stack = None,
                   error = True,
                   errorString = JString ''Authentication token is required.'',
                   details = None,
                   status = Some 401,
                   isApiError = True,
                   apiResponse = None \<rparr>)
   \<and> requests (snd (getFavoriteSongs [] fresh_browser)) = []
   \<and> console (snd (getFavoriteSongs [] fresh_browser)) = []"
  by (simp add: getFavoriteSongs_def throw_def and_then_def ret_def new_Error_def
      createApiError_def fresh_browser_def example_browser_def)

end
